theory Spec2Isabelle
  imports Main "HOL-Library.Word"
begin

section \<open>Fernet tokens (cryptography/fernet.py)\<close>

text \<open>
  A shallow embedding of the class \<open>Fernet\<close>. Byte strings are lists of 8-bit words,
  Python's unbounded integers are \<open>int\<close>, and every \<open>raise\<close> of the source is a
  value \<open>Inl e\<close> of the result type.
\<close>

type_synonym byte = "8 word"
type_synonym bytes = "byte list"

text \<open>
  The argument of \<open>encrypt\<close> and \<open>decrypt\<close> is either a byte string or a unicode
  string (\<open>six.text_type\<close>); the source tests for the latter with \<open>isinstance\<close>.
\<close>

datatype pyobj = Bytes bytes | Text string

text \<open>
  The exceptions that can leave the three methods. \<open>Base64Error\<close> stands for what
  \<open>base64.urlsafe_b64decode\<close> raises on malformed input (\<open>TypeError\<close> or
  \<open>binascii.Error\<close>, depending on the interpreter), \<open>StructError\<close> for
  \<open>struct.error\<close>.
\<close>

datatype error = TypeError | ValueError | IndexError | Base64Error | StructError | InvalidToken

definition MAX_CLOCK_SKEW :: int where
  "MAX_CLOCK_SKEW = 60"

subsection \<open>External collaborators\<close>

text \<open>
  The base64 codec and the PKCS7 padder are library code outside \<open>fernet.py\<close>; they
  are taken as parameters. \<open>urlsafe_b64decode\<close> is \<open>None\<close> where the library raises
  \<open>TypeError\<close> or \<open>binascii.Error\<close>; \<open>pkcs7_pad d\<close> is
  \<open>padder.update(d) + padder.finalize()\<close>; \<open>pkcs7_unpad d\<close> is
  \<open>unpadder.update(d) + unpadder.finalize()\<close>, \<open>None\<close> where \<open>finalize\<close> raises
  \<open>ValueError\<close>.
\<close>

record codecs =
  urlsafe_b64encode :: "bytes \<Rightarrow> bytes"
  urlsafe_b64decode :: "bytes \<Rightarrow> bytes option"
  pkcs7_pad :: "bytes \<Rightarrow> bytes"
  pkcs7_unpad :: "bytes \<Rightarrow> bytes option"

text \<open>
  The backend supplies HMAC-SHA256 and AES in CBC mode. \<open>hmac_sha256 k m\<close> is the tag
  \<open>HMAC(k, SHA256).update(m).finalize()\<close>. \<open>aes_cbc_encrypt k iv d\<close> is
  \<open>encryptor.update(d) + encryptor.finalize()\<close> of \<open>Cipher(AES(k), CBC(iv))\<close> and
  \<open>aes_cbc_decrypt k iv c\<close> the same for the decryptor; both are \<open>None\<close> where
  \<open>finalize\<close> raises \<open>ValueError\<close>.
\<close>

record backend =
  hmac_sha256 :: "bytes \<Rightarrow> bytes \<Rightarrow> bytes"
  aes_cbc_encrypt :: "bytes \<Rightarrow> bytes \<Rightarrow> bytes \<Rightarrow> bytes option"
  aes_cbc_decrypt :: "bytes \<Rightarrow> bytes \<Rightarrow> bytes \<Rightarrow> bytes option"

subsection \<open>\<open>struct.pack(">Q", n)\<close> and \<open>struct.unpack(">Q", b)\<close>\<close>

fun be_bytes :: "nat \<Rightarrow> int \<Rightarrow> bytes" where
  "be_bytes 0 v = []"
| "be_bytes (Suc n) v = be_bytes n (v div 256) @ [word_of_int (v mod 256)]"

definition be_int :: "bytes \<Rightarrow> int" where
  "be_int bs = foldl (\<lambda>acc b. acc * 256 + uint b) 0 bs"

text \<open>\<open>struct.pack\<close> raises \<open>struct.error\<close> outside the range of an unsigned 64-bit value.\<close>

definition pack_Q :: "int \<Rightarrow> bytes option" where
  "pack_Q v = (if 0 \<le> v \<and> v < 2 ^ 64 then Some (be_bytes 8 v) else None)"

text \<open>\<open>struct.unpack\<close> raises \<open>struct.error\<close> unless it is given exactly 8 bytes.\<close>

definition unpack_Q :: "bytes \<Rightarrow> int option" where
  "unpack_Q bs = (if length bs = 8 then Some (be_int bs) else None)"

subsection \<open>Python slices\<close>

text \<open>
  \<open>slice i j d\<close> is \<open>d[i:j]\<close> for non-negative \<open>i\<close>, \<open>j\<close>. With a negative bound
  Python counts from the end and stops at the start of the string, which is what
  subtraction on \<open>nat\<close> does: \<open>d[:-32]\<close> is \<open>take (length d - 32) d\<close> and
  \<open>d[-32:]\<close> is \<open>drop (length d - 32) d\<close>.
\<close>

definition slice :: "nat \<Rightarrow> nat \<Rightarrow> 'a list \<Rightarrow> 'a list" where
  "slice i j d = take (j - i) (drop i d)"

subsection \<open>The class\<close>

record fernet =
  signing_key :: bytes
  encryption_key :: bytes
  backend :: backend

text \<open>\<open>Fernet.__init__(key, backend=None)\<close>; \<open>dflt\<close> is what \<open>default_backend()\<close> returns.\<close>

definition Fernet_init :: "codecs \<Rightarrow> backend \<Rightarrow> bytes \<Rightarrow> backend option \<Rightarrow> error + fernet" where
  "Fernet_init L dflt key backend_arg =
     (let b = (case backend_arg of None \<Rightarrow> dflt | Some b' \<Rightarrow> b') in
      case urlsafe_b64decode L key of
        None \<Rightarrow> Inl Base64Error
      | Some k \<Rightarrow>
          if length k \<noteq> 32 then Inl ValueError
          else Inr \<lparr>signing_key = take 16 k, encryption_key = drop 16 k, backend = b\<rparr>)"

text \<open>\<open>Fernet._encrypt_from_parts(data, current_time, iv)\<close>.\<close>

definition encrypt_from_parts :: "codecs \<Rightarrow> fernet \<Rightarrow> pyobj \<Rightarrow> int \<Rightarrow> bytes \<Rightarrow> error + bytes" where
  "encrypt_from_parts L self data current_time iv =
     (case data of
        Text s \<Rightarrow> Inl TypeError
      | Bytes d \<Rightarrow>
          (let padded_data = pkcs7_pad L d in
           case aes_cbc_encrypt (backend self) (encryption_key self) iv padded_data of
             None \<Rightarrow> Inl ValueError
           | Some ciphertext \<Rightarrow>
               (case pack_Q current_time of
                  None \<Rightarrow> Inl StructError
                | Some ts \<Rightarrow>
                    (let basic_parts = [0x80] @ ts @ iv @ ciphertext;
                         hmac = hmac_sha256 (backend self) (signing_key self) basic_parts
                     in Inr (urlsafe_b64encode L (basic_parts @ hmac))))))"

text \<open>
  \<open>Fernet.encrypt(data)\<close>: the clock reading \<open>int(time.time())\<close> and the 16 bytes of
  \<open>os.urandom(16)\<close> are the arguments \<open>current_time\<close> and \<open>iv\<close>.
\<close>

definition encrypt :: "codecs \<Rightarrow> fernet \<Rightarrow> pyobj \<Rightarrow> int \<Rightarrow> bytes \<Rightarrow> error + bytes" where
  "encrypt L self data current_time iv = encrypt_from_parts L self data current_time iv"

text \<open>
  \<open>Fernet.decrypt(token, ttl=None)\<close>; \<open>current_time\<close> is the clock reading
  \<open>int(time.time())\<close>. \<open>six.indexbytes(data, 0)\<close> raises \<open>IndexError\<close> on the
  empty string, and no handler of the method catches it.
\<close>

definition decrypt :: "codecs \<Rightarrow> fernet \<Rightarrow> pyobj \<Rightarrow> int option \<Rightarrow> int \<Rightarrow> error + bytes" where
  "decrypt L self token ttl current_time =
     (case token of
        Text s \<Rightarrow> Inl TypeError
      | Bytes tok \<Rightarrow>
          (case urlsafe_b64decode L tok of
             None \<Rightarrow> Inl InvalidToken
           | Some data \<Rightarrow>
               (case data of
                  [] \<Rightarrow> Inl IndexError
                | v # rest \<Rightarrow>
                    if v \<noteq> 0x80 then Inl InvalidToken
                    else
                      (case unpack_Q (slice 1 9 data) of
                         None \<Rightarrow> Inl InvalidToken
                       | Some timestamp \<Rightarrow>
                           if (case ttl of None \<Rightarrow> False
                               | Some t \<Rightarrow> timestamp + t < current_time)
                           then Inl InvalidToken
                           else if current_time + MAX_CLOCK_SKEW < timestamp then Inl InvalidToken
                           else if hmac_sha256 (backend self) (signing_key self)
                                     (take (length data - 32) data)
                                   \<noteq> drop (length data - 32) data
                           then Inl InvalidToken
                           else
                             (let iv = slice 9 25 data;
                                  ciphertext = slice 25 (length data - 32) data
                              in case aes_cbc_decrypt (backend self) (encryption_key self) iv ciphertext of
                                   None \<Rightarrow> Inl InvalidToken
                                 | Some plaintext_padded \<Rightarrow>
                                     (case pkcs7_unpad L plaintext_padded of
                                        None \<Rightarrow> Inl InvalidToken
                                      | Some unpadded \<Rightarrow> Inr unpadded))))))"

subsection \<open>The methods as transformers of the object\<close>

text \<open>
  To observe what a call does to the attributes of \<open>self\<close>, the bodies are written
  once more over the object as state: a call maps the object before it to its
  outcome (a value or the exception raised) and the object after it. An attribute
  access \<open>self._a\<close> is \<open>read_attr\<close>, an assignment \<open>self._a = v\<close> is
  \<open>write_attr\<close>, and an exception leaves the object as it is at the \<open>raise\<close>.
  The collaborators are functions of byte strings, which Python cannot mutate.
\<close>

type_synonym 'a action = "fernet \<Rightarrow> (error + 'a) \<times> fernet"

definition return_m :: "'a \<Rightarrow> 'a action" where
  "return_m x = (\<lambda>self. (Inr x, self))"

definition raise_m :: "error \<Rightarrow> 'a action" where
  "raise_m e = (\<lambda>self. (Inl e, self))"

definition bind_m :: "'a action \<Rightarrow> ('a \<Rightarrow> 'b action) \<Rightarrow> 'b action" where
  "bind_m m f =
     (\<lambda>self. case m self of
        (Inl e, self') \<Rightarrow> (Inl e, self')
      | (Inr x, self') \<Rightarrow> f x self')"

definition read_attr :: "(fernet \<Rightarrow> 'a) \<Rightarrow> 'a action" where
  "read_attr a = (\<lambda>self. (Inr (a self), self))"

definition write_attr :: "(fernet \<Rightarrow> fernet) \<Rightarrow> unit action" where
  "write_attr upd = (\<lambda>self. (Inr (), upd self))"

text \<open>
  \<open>Fernet.__init__\<close> (lines 37 to 49): the three assignments to \<open>self\<close> come after
  the length check.
\<close>

definition Fernet_init_st :: "codecs \<Rightarrow> backend \<Rightarrow> bytes \<Rightarrow> backend option \<Rightarrow> unit action" where
  "Fernet_init_st L dflt key backend_arg =
     (let b = (case backend_arg of None \<Rightarrow> dflt | Some b' \<Rightarrow> b') in
      case urlsafe_b64decode L key of
        None \<Rightarrow> raise_m Base64Error
      | Some k \<Rightarrow>
          if length k \<noteq> 32 then raise_m ValueError
          else
            bind_m (write_attr (\<lambda>self. self\<lparr>signing_key := take 16 k\<rparr>)) (\<lambda>u1.
            bind_m (write_attr (\<lambda>self. self\<lparr>encryption_key := drop 16 k\<rparr>)) (\<lambda>u2.
            write_attr (\<lambda>self. self\<lparr>backend := b\<rparr>))))"

text \<open>
  \<open>Fernet._encrypt_from_parts\<close> (lines 60 to 80): \<open>self._encryption_key\<close> and
  \<open>self._backend\<close> are read for the cipher, \<open>self._signing_key\<close> and
  \<open>self._backend\<close> for the HMAC.
\<close>

definition encrypt_from_parts_st :: "codecs \<Rightarrow> pyobj \<Rightarrow> int \<Rightarrow> bytes \<Rightarrow> bytes action" where
  "encrypt_from_parts_st L data current_time iv =
     (case data of
        Text s \<Rightarrow> raise_m TypeError
      | Bytes d \<Rightarrow>
          (let padded_data = pkcs7_pad L d in
           bind_m (read_attr encryption_key) (\<lambda>ek.
           bind_m (read_attr backend) (\<lambda>b.
             case aes_cbc_encrypt b ek iv padded_data of
               None \<Rightarrow> raise_m ValueError
             | Some ciphertext \<Rightarrow>
                 (case pack_Q current_time of
                    None \<Rightarrow> raise_m StructError
                  | Some ts \<Rightarrow>
                      (let basic_parts = [0x80] @ ts @ iv @ ciphertext in
                       bind_m (read_attr signing_key) (\<lambda>sk.
                       bind_m (read_attr backend) (\<lambda>b'.
                         return_m (urlsafe_b64encode L
                                     (basic_parts @ hmac_sha256 b' sk basic_parts))))))))))"

definition encrypt_st :: "codecs \<Rightarrow> pyobj \<Rightarrow> int \<Rightarrow> bytes \<Rightarrow> bytes action" where
  "encrypt_st L data current_time iv = encrypt_from_parts_st L data current_time iv"

text \<open>
  \<open>Fernet.decrypt\<close> (lines 82 to 131): \<open>self._signing_key\<close> and \<open>self._backend\<close>
  are read for the HMAC, \<open>self._encryption_key\<close> and \<open>self._backend\<close> for the
  cipher.
\<close>

definition decrypt_st :: "codecs \<Rightarrow> pyobj \<Rightarrow> int option \<Rightarrow> int \<Rightarrow> bytes action" where
  "decrypt_st L token ttl current_time =
     (case token of
        Text s \<Rightarrow> raise_m TypeError
      | Bytes tok \<Rightarrow>
          (case urlsafe_b64decode L tok of
             None \<Rightarrow> raise_m InvalidToken
           | Some data \<Rightarrow>
               (case data of
                  [] \<Rightarrow> raise_m IndexError
                | v # rest \<Rightarrow>
                    if v \<noteq> 0x80 then raise_m InvalidToken
                    else
                      (case unpack_Q (slice 1 9 data) of
                         None \<Rightarrow> raise_m InvalidToken
                       | Some timestamp \<Rightarrow>
                           if (case ttl of None \<Rightarrow> False
                               | Some t \<Rightarrow> timestamp + t < current_time)
                           then raise_m InvalidToken
                           else if current_time + MAX_CLOCK_SKEW < timestamp
                           then raise_m InvalidToken
                           else
                             bind_m (read_attr signing_key) (\<lambda>sk.
                             bind_m (read_attr backend) (\<lambda>b.
                               if hmac_sha256 b sk (take (length data - 32) data)
                                    \<noteq> drop (length data - 32) data
                               then raise_m InvalidToken
                               else
                                 (let iv = slice 9 25 data;
                                      ciphertext = slice 25 (length data - 32) data
                                  in
                                  bind_m (read_attr encryption_key) (\<lambda>ek.
                                  bind_m (read_attr backend) (\<lambda>b'.
                                    case aes_cbc_decrypt b' ek iv ciphertext of
                                      None \<Rightarrow> raise_m InvalidToken
                                    | Some plaintext_padded \<Rightarrow>
                                        (case pkcs7_unpad L plaintext_padded of
                                           None \<Rightarrow> raise_m InvalidToken
                                         | Some unpadded \<Rightarrow> return_m unpadded))))))))))"

subsection \<open>Reading a token\<close>

text \<open>The timestamp field of a token, where it has one (lines 91 and 99 of the source).\<close>

definition token_timestamp :: "codecs \<Rightarrow> bytes \<Rightarrow> int option" where
  "token_timestamp L tok =
     (case urlsafe_b64decode L tok of
        None \<Rightarrow> None
      | Some data \<Rightarrow> unpack_Q (slice 1 9 data))"

text \<open>The test of \<open>h.verify(data[-32:])\<close> after \<open>h.update(data[:-32])\<close>.\<close>

definition mac_verifies :: "fernet \<Rightarrow> bytes \<Rightarrow> bool" where
  "mac_verifies self data \<longleftrightarrow>
     hmac_sha256 (backend self) (signing_key self) (take (length data - 32) data)
       = drop (length data - 32) data"

subsection \<open>Contracts of the collaborators\<close>

text \<open>
  What the scheme relies on: base64 decoding inverts encoding, unpadding inverts
  padding, padded data is a whole number of 16-byte blocks, the tag has 32 bytes, and
  with a 16-byte key and a 16-byte iv CBC decryption inverts CBC encryption on whole
  blocks.
\<close>

definition primitives_ok :: "codecs \<Rightarrow> backend \<Rightarrow> bool" where
  "primitives_ok L B \<longleftrightarrow>
     (\<forall>d. urlsafe_b64decode L (urlsafe_b64encode L d) = Some d) \<and>
     (\<forall>d. pkcs7_unpad L (pkcs7_pad L d) = Some d) \<and>
     (\<forall>d. length (pkcs7_pad L d) mod 16 = 0) \<and>
     (\<forall>k m. length (hmac_sha256 B k m) = 32) \<and>
     (\<forall>k iv d. length k = 16 \<and> length iv = 16 \<and> length d mod 16 = 0 \<longrightarrow>
        (\<exists>c. aes_cbc_encrypt B k iv d = Some c \<and> aes_cbc_decrypt B k iv c = Some d))"

subsection \<open>A small instance of the collaborators\<close>

text \<open>
  An instance that meets the contracts, for evaluating the statements below at concrete
  inputs: the identity as codec, PKCS7 padding to 16-byte blocks, a 32-byte checksum as
  tag and a bytewise shift as cipher. It stands in for the library; nothing is claimed
  about the strength of these functions.
\<close>

definition toy_pad :: "bytes \<Rightarrow> bytes" where
  "toy_pad d = (let n = 16 - length d mod 16 in d @ replicate n (of_nat n))"

definition toy_unpad :: "bytes \<Rightarrow> bytes option" where
  "toy_unpad d =
     (if d = [] \<or> length d mod 16 \<noteq> 0 then None
      else let n = unat (last d) in
        if n = 0 \<or> 16 < n \<or> drop (length d - n) d \<noteq> replicate n (last d) then None
        else Some (take (length d - n) d))"

definition toy_codecs :: codecs where
  "toy_codecs = \<lparr>urlsafe_b64encode = (\<lambda>d. d), urlsafe_b64decode = (\<lambda>d. Some d),
     pkcs7_pad = toy_pad, pkcs7_unpad = toy_unpad\<rparr>"

definition toy_backend :: backend where
  "toy_backend = \<lparr>hmac_sha256 = (\<lambda>k m. replicate 32 (foldl (+) 0 (k @ m))),
     aes_cbc_encrypt = (\<lambda>k iv d. if length d mod 16 = 0 then Some (map (\<lambda>b. b + 1) d) else None),
     aes_cbc_decrypt = (\<lambda>k iv c. if length c mod 16 = 0 then Some (map (\<lambda>b. b - 1) c) else None)\<rparr>"

definition toy_key :: bytes where
  "toy_key = replicate 16 1 @ replicate 16 2"

definition toy_fernet :: fernet where
  "toy_fernet = \<lparr>signing_key = replicate 16 1, encryption_key = replicate 16 2, backend = toy_backend\<rparr>"

definition toy_iv :: bytes where
  "toy_iv = replicate 16 7"

definition toy_token :: bytes where
  "toy_token = [0x80] @ [0, 0, 0, 0, 0, 0, 3, 232] @ replicate 16 7
     @ [2, 3, 4] @ replicate 13 14 @ replicate 32 170"

section \<open>Auxiliary facts\<close>

lemma be_int_snoc: "be_int (bs @ [b]) = be_int bs * 256 + uint b"
  by (simp add: be_int_def)

lemma length_be_bytes: "length (be_bytes n v) = n"
  by (induction n arbitrary: v) simp_all

lemma be_int_be_bytes: "be_int (be_bytes n v) = v mod 256 ^ n"
proof (induction n arbitrary: v)
  case 0
  show ?case by (simp add: be_int_def)
next
  case (Suc n)
  have "be_int (be_bytes (Suc n) v) = (v div 256 mod 256 ^ n) * 256 + v mod 256"
    by (simp add: be_int_snoc Suc.IH uint_word_of_int)
  also have "\<dots> = v mod 256 ^ Suc n"
    using zmod_zmult2_eq [of "256 ^ n" v 256] by (simp add: mult.commute)
  finally show ?case .
qed

lemma unpack_pack_Q: "pack_Q v = Some bs \<Longrightarrow> unpack_Q bs = Some v"
  by (auto simp: pack_Q_def unpack_Q_def length_be_bytes be_int_be_bytes split: if_splits)

lemma toy_unpad_pad: "toy_unpad (toy_pad d) = Some d"
proof -
  define n where "n = 16 - length d mod 16"
  have n: "0 < n" "n \<le> 16" by (simp_all add: n_def)
  have u: "unat (of_nat n :: byte) = n"
    using n by (simp add: unat_of_nat)
  have m: "(length d + n) mod 16 = 0"
    unfolding n_def by presburger
  show ?thesis
    using n u m by (simp add: toy_unpad_def toy_pad_def Let_def n_def[symmetric])
qed

lemma toy_pad_blocks: "length (toy_pad d) mod 16 = 0"
  unfolding toy_pad_def Let_def by simp presburger

lemma toy_primitives_ok: "primitives_ok toy_codecs toy_backend"
  by (simp add: primitives_ok_def toy_codecs_def toy_backend_def toy_unpad_pad toy_pad_blocks comp_def)

lemma slices:
  assumes "length ts = 8" "length iv = 16" "length h = 32"
  shows "slice 1 9 ([v] @ ts @ iv @ c @ h) = ts"
    and "take (length ([v] @ ts @ iv @ c @ h) - 32) ([v] @ ts @ iv @ c @ h) = [v] @ ts @ iv @ c"
    and "drop (length ([v] @ ts @ iv @ c @ h) - 32) ([v] @ ts @ iv @ c @ h) = h"
    and "slice 9 25 ([v] @ ts @ iv @ c @ h) = iv"
    and "slice 25 (length ([v] @ ts @ iv @ c @ h) - 32) ([v] @ ts @ iv @ c @ h) = c"
proof -
  let ?d = "[v] @ ts @ iv @ c @ h"
  have l: "length ([v] @ ts @ iv @ c) = length ?d - 32"
    using assms by simp
  have a: "([v] @ ts @ iv @ c) @ h = ?d" by simp
  show "take (length ?d - 32) ?d = [v] @ ts @ iv @ c"
    using a l by (metis append_eq_conv_conj)
  show "drop (length ?d - 32) ?d = h"
    using a l by (metis append_eq_conv_conj)
  show "slice 1 9 ?d = ts" "slice 9 25 ?d = iv"
    using assms by (simp_all add: slice_def)
  show "slice 25 (length ?d - 32) ?d = c"
    using assms by (simp add: slice_def)
qed

lemma roundtrip_at_timestamp:
  assumes ok: "primitives_ok L (backend F)"
    and k: "length (encryption_key F) = 16"
    and iv: "length iv = 16"
    and t: "0 \<le> t" "t < 2 ^ 64"
  shows "\<exists>tok. encrypt L F (Bytes p) t iv = Inr tok \<and> token_timestamp L tok = Some t
           \<and> decrypt L F (Bytes tok) None t = Inr p"
proof -
  from ok k iv obtain c where
    enc: "aes_cbc_encrypt (backend F) (encryption_key F) iv (pkcs7_pad L p) = Some c" and
    dec: "aes_cbc_decrypt (backend F) (encryption_key F) iv c = Some (pkcs7_pad L p)"
    unfolding primitives_ok_def by blast
  define ts where "ts = be_bytes 8 t"
  define basic where "basic = [0x80] @ ts @ iv @ c"
  define h where "h = hmac_sha256 (backend F) (signing_key F) basic"
  define data where "data = [0x80] @ ts @ iv @ c @ h"
  have lts: "length ts = 8" by (simp add: ts_def length_be_bytes)
  have lh: "length h = 32" using ok by (simp add: primitives_ok_def h_def)
  have pk: "pack_Q t = Some ts" using t by (simp add: pack_Q_def ts_def)
  have un: "unpack_Q ts = Some t" using pk by (rule unpack_pack_Q)
  have e: "encrypt L F (Bytes p) t iv = Inr (urlsafe_b64encode L data)"
    by (simp add: encrypt_def encrypt_from_parts_def enc pk Let_def data_def h_def basic_def)
  have b64: "urlsafe_b64decode L (urlsafe_b64encode L data) = Some data"
    using ok by (simp add: primitives_ok_def)
  have unp: "pkcs7_unpad L (pkcs7_pad L p) = Some p"
    using ok by (simp add: primitives_ok_def)
  have s1: "slice 1 9 data = ts"
    and s2: "take (length data - 32) data = basic"
    and s3: "drop (length data - 32) data = h"
    and s4: "slice 9 25 data = iv"
    and s5: "slice 25 (length data - 32) data = c"
    unfolding data_def basic_def using slices [OF lts iv lh] by simp_all
  have ne: "data \<noteq> []" "hd data = 0x80" by (simp_all add: data_def)
  have tt: "token_timestamp L (urlsafe_b64encode L data) = Some t"
    by (simp add: token_timestamp_def b64 s1 un del: One_nat_def)
  have d: "decrypt L F (Bytes (urlsafe_b64encode L data)) None t = Inr p"
    unfolding decrypt_def using ne
    by (auto simp add: b64 s1 s2 s3 s4 s5 un MAX_CLOCK_SKEW_def h_def [symmetric] dec unp Let_def
        simp del: One_nat_def split: list.split)
  from e tt d show ?thesis by blast
qed

lemma decrypt_clock:
  assumes "token_timestamp L tok = Some ts"
    and "decrypt L F (Bytes tok) None ts = Inr p"
  shows "decrypt L F (Bytes tok) ttl now =
           (if (case ttl of None \<Rightarrow> False | Some t \<Rightarrow> ts + t < now) \<or> now + MAX_CLOCK_SKEW < ts
            then Inl InvalidToken else Inr p)"
  using assms
  by (auto simp: decrypt_def token_timestamp_def Let_def MAX_CLOCK_SKEW_def
      split: option.splits list.splits if_splits)

lemma decrypt_expired:
  assumes "token_timestamp L tok = Some ts" and "ts + ttl < now"
  shows "decrypt L F (Bytes tok) (Some ttl) now = Inl InvalidToken"
  using assms
  by (auto simp: decrypt_def token_timestamp_def unpack_Q_def slice_def
      split: option.splits list.splits if_splits)

lemma toy_token_timestamp: "token_timestamp toy_codecs toy_token = Some 1000"
  by code_simp

lemma toy_token_decrypt: "decrypt toy_codecs toy_fernet (Bytes toy_token) None 1000 = Inr [1, 2, 3]"
  by code_simp

lemma toy_token_encrypt: "encrypt toy_codecs toy_fernet (Bytes [1, 2, 3]) 1000 toy_iv = Inr toy_token"
  by code_simp


lemma Fernet_init_Inr:
  assumes "Fernet_init L dflt key b = Inr F"
  shows "length (signing_key F) = 16" and "length (encryption_key F) = 16"
  using assms
  by (auto simp: Fernet_init_def Let_def split: option.splits if_splits)

lemma toy_init: "Fernet_init toy_codecs toy_backend toy_key None = Inr toy_fernet"
  by (simp add: Fernet_init_def toy_codecs_def toy_key_def toy_fernet_def)

lemma toy_backend_ok: "primitives_ok toy_codecs (backend toy_fernet)"
  using toy_primitives_ok by (simp add: toy_fernet_def)

lemma decrypt_errors_nonempty:
  assumes "urlsafe_b64decode L tok \<noteq> Some []"
    and "decrypt L F (Bytes tok) ttl now = Inl e"
  shows "e = InvalidToken"
  using assms
  by (auto simp: decrypt_def Let_def split: option.splits list.splits if_splits)

text \<open>
  The constructor as a transformer: it raises what \<open>Fernet_init\<close> raises, leaving the
  object untouched, or overwrites the three attributes. On a 32-byte key it changes
  every object that does not already hold that key and backend.
\<close>

lemma Fernet_init_st_eq:
  "Fernet_init_st L dflt key b self0 =
     (case Fernet_init L dflt key b of
        Inl e \<Rightarrow> (Inl e, self0)
      | Inr F \<Rightarrow> (Inr (), F))"
  by (simp add: Fernet_init_st_def Fernet_init_def bind_m_def write_attr_def raise_m_def Let_def
      split: option.split)

lemma Fernet_init_st_writes:
  "snd (Fernet_init_st toy_codecs toy_backend toy_key None
          \<lparr>signing_key = [], encryption_key = [], backend = toy_backend\<rparr>)
     = toy_fernet
   \<and> toy_fernet \<noteq> \<lparr>signing_key = [], encryption_key = [], backend = toy_backend\<rparr>"
  by (simp add: Fernet_init_st_eq toy_init toy_fernet_def)

section \<open>Properties\<close>

text \<open>
  C1. Round trip: under a key accepted by the constructor, with collaborators that meet
  their contracts, a 16-byte iv and a clock reading \<open>t\<close> that fits the 8-byte field,
  encrypting \<open>p\<close> returns a token, and decrypting that token without TTL at any clock
  reading \<open>now \<ge> t\<close> returns exactly \<open>p\<close>.
\<close>

theorem encrypt_decrypt_roundtrip:
  assumes init: "Fernet_init L dflt key b = Inr F"
    and ok: "primitives_ok L (backend F)"
    and iv: "length iv = 16"
    and t: "0 \<le> t" "t < 2 ^ 64"
    and now: "t \<le> now"
  shows "\<exists>tok. encrypt L F (Bytes p) t iv = Inr tok \<and> decrypt L F (Bytes tok) None now = Inr p"
proof -
  have k: "length (encryption_key F) = 16"
    using init by (rule Fernet_init_Inr)
  from roundtrip_at_timestamp [OF ok k iv t, of p] obtain tok where
    e: "encrypt L F (Bytes p) t iv = Inr tok" and
    ts: "token_timestamp L tok = Some t" and
    d: "decrypt L F (Bytes tok) None t = Inr p"
    by blast
  have "decrypt L F (Bytes tok) None now = Inr p"
    using decrypt_clock [OF ts d, of None now] now by (simp add: MAX_CLOCK_SKEW_def)
  with e show ?thesis by blast
qed

theorem encrypt_decrypt_roundtrip_witness:
  "Fernet_init toy_codecs toy_backend toy_key None = Inr toy_fernet
   \<and> primitives_ok toy_codecs (backend toy_fernet)
   \<and> (\<exists>tok. encrypt toy_codecs toy_fernet (Bytes [1, 2, 3]) 1000 toy_iv = Inr tok
          \<and> decrypt toy_codecs toy_fernet (Bytes tok) None 1030 = Inr [1, 2, 3])"
  using encrypt_decrypt_roundtrip [OF toy_init toy_backend_ok, of toy_iv 1000 1030 "[1, 2, 3]"]
    toy_init toy_backend_ok
  by (simp add: toy_iv_def)

text \<open>
  C2. The claim that every validation failure of \<open>decrypt\<close> is \<open>InvalidToken\<close>
  fails on a token that decodes to the empty byte string (the token \<open>b""\<close>):
  \<open>six.indexbytes(data, 0)\<close> raises \<open>IndexError\<close>, which no handler turns into
  \<open>InvalidToken\<close>. The method has no length check. (For every other byte token the
  only error is \<open>InvalidToken\<close>: lemma \<open>decrypt_errors_nonempty\<close>.)
\<close>

theorem decrypt_empty_data_IndexError:
  assumes "urlsafe_b64decode L tok = Some []"
  shows "decrypt L F (Bytes tok) ttl now = Inl IndexError \<and> IndexError \<noteq> InvalidToken"
  using assms by (simp add: decrypt_def)

theorem decrypt_empty_data_IndexError_witness:
  "urlsafe_b64decode toy_codecs [] = Some []
   \<and> decrypt toy_codecs toy_fernet (Bytes []) None 0 = Inl IndexError"
proof -
  have h: "urlsafe_b64decode toy_codecs [] = Some []"
    by (simp add: toy_codecs_def)
  show ?thesis
    using h decrypt_empty_data_IndexError [OF h, of toy_fernet None 0] by simp
qed

text \<open>
  C3. Whenever \<open>decrypt\<close> returns a plaintext, the token was a byte string that
  decoded to \<open>data\<close>, the HMAC of \<open>data[:-32]\<close> under the signing key equals the
  trailing \<open>data[-32:]\<close>, and the plaintext is the unpadded CBC decryption of
  \<open>data[25:-32]\<close> under the iv \<open>data[9:25]\<close>: no plaintext is returned without a
  successful MAC verification.
\<close>

theorem decrypt_requires_mac:
  assumes "decrypt L F token ttl now = Inr p"
  shows "\<exists>tok data pp. token = Bytes tok \<and> urlsafe_b64decode L tok = Some data
           \<and> mac_verifies F data
           \<and> aes_cbc_decrypt (backend F) (encryption_key F) (slice 9 25 data)
                (slice 25 (length data - 32) data) = Some pp
           \<and> pkcs7_unpad L pp = Some p"
  using assms
  by (auto simp: decrypt_def mac_verifies_def Let_def
      split: pyobj.splits option.splits list.splits if_splits)

theorem decrypt_requires_mac_witness:
  "decrypt toy_codecs toy_fernet (Bytes toy_token) None 1000 = Inr [1, 2, 3]
   \<and> (\<exists>data. urlsafe_b64decode toy_codecs toy_token = Some data \<and> mac_verifies toy_fernet data)"
proof -
  have h: "decrypt toy_codecs toy_fernet (Bytes toy_token) None 1000 = Inr [1, 2, 3]"
    by (rule toy_token_decrypt)
  show ?thesis
    using h decrypt_requires_mac [OF h] by auto
qed

text \<open>
  C4. If the key decodes to 32 bytes, the constructor succeeds with the signing key the
  first 16 and the encryption key the last 16 decoded bytes, unchanged; for any other
  decoded length it fails with \<open>ValueError\<close>, whatever the backend is.
\<close>

theorem Fernet_init_key_length:
  assumes "urlsafe_b64decode L key = Some k"
  shows "(length k = 32 \<longrightarrow>
            Fernet_init L dflt key b =
              Inr \<lparr>signing_key = take 16 k, encryption_key = drop 16 k,
                   backend = (case b of None \<Rightarrow> dflt | Some b' \<Rightarrow> b')\<rparr>
            \<and> length (take 16 k) = 16 \<and> length (drop 16 k) = 16 \<and> take 16 k @ drop 16 k = k)
       \<and> (length k \<noteq> 32 \<longrightarrow> Fernet_init L dflt key b = Inl ValueError)"
  using assms by (simp add: Fernet_init_def Let_def)

theorem Fernet_init_key_length_witness:
  "urlsafe_b64decode toy_codecs toy_key = Some toy_key \<and> length toy_key = 32
   \<and> Fernet_init toy_codecs toy_backend toy_key None =
        Inr \<lparr>signing_key = replicate 16 1, encryption_key = replicate 16 2, backend = toy_backend\<rparr>
   \<and> urlsafe_b64decode toy_codecs [1, 2, 3] = Some [1, 2, 3]
   \<and> Fernet_init toy_codecs toy_backend [1, 2, 3] None = Inl ValueError"
proof -
  have h: "urlsafe_b64decode toy_codecs toy_key = Some toy_key"
    and g: "urlsafe_b64decode toy_codecs [1, 2, 3] = Some [1, 2, 3]"
    by (simp_all add: toy_codecs_def)
  show ?thesis
    using h g Fernet_init_key_length [OF h, of toy_backend None]
      Fernet_init_key_length [OF g, of toy_backend None]
    by (simp add: toy_key_def)
qed

text \<open>
  C5. For a token that is valid apart from its time (it has the timestamp \<open>ts\<close> and is
  accepted by a verifier whose clock reads \<open>ts\<close>), \<open>decrypt\<close> without TTL fails with
  \<open>InvalidToken\<close> exactly when \<open>now + 60 < ts\<close> and returns the plaintext otherwise;
  a timestamp 61 seconds ahead fails, one 59 seconds ahead succeeds. The tolerance is
  the module constant 60: \<open>decrypt\<close> has no argument for it.
\<close>

theorem decrypt_future_skew:
  assumes ts: "token_timestamp L tok = Some ts"
    and v: "decrypt L F (Bytes tok) None ts = Inr p"
  shows "(decrypt L F (Bytes tok) None now = Inl InvalidToken \<longleftrightarrow> now + 60 < ts)
       \<and> (\<not> now + 60 < ts \<longrightarrow> decrypt L F (Bytes tok) None now = Inr p)
       \<and> decrypt L F (Bytes tok) None (ts - 61) = Inl InvalidToken
       \<and> decrypt L F (Bytes tok) None (ts - 59) = Inr p
       \<and> MAX_CLOCK_SKEW = 60"
  using decrypt_clock [OF ts v, of None now] decrypt_clock [OF ts v, of None "ts - 61"]
    decrypt_clock [OF ts v, of None "ts - 59"]
  by (simp add: MAX_CLOCK_SKEW_def)

theorem decrypt_future_skew_witness:
  "token_timestamp toy_codecs toy_token = Some 1000
   \<and> decrypt toy_codecs toy_fernet (Bytes toy_token) None 1000 = Inr [1, 2, 3]
   \<and> decrypt toy_codecs toy_fernet (Bytes toy_token) None 939 = Inl InvalidToken
   \<and> decrypt toy_codecs toy_fernet (Bytes toy_token) None 941 = Inr [1, 2, 3]"
  using decrypt_future_skew [OF toy_token_timestamp toy_token_decrypt, of 1000]
    toy_token_timestamp toy_token_decrypt
  by simp

text \<open>
  C6. For every token that has a timestamp \<open>ts\<close> and every TTL, \<open>decrypt\<close> fails with
  \<open>InvalidToken\<close> when \<open>ts + ttl < now\<close>. For a token valid apart from its time and
  100 seconds old, TTL 50 fails and TTL 200 succeeds; without TTL no age check is made,
  so the token is accepted at every clock reading \<open>now \<ge> ts\<close>.
\<close>

theorem decrypt_ttl:
  assumes ts: "token_timestamp L tok = Some ts"
  shows "(ts + ttl < now \<longrightarrow> decrypt L F (Bytes tok) (Some ttl) now = Inl InvalidToken)
       \<and> (decrypt L F (Bytes tok) None ts = Inr p \<longrightarrow>
            decrypt L F (Bytes tok) (Some 50) (ts + 100) = Inl InvalidToken
          \<and> decrypt L F (Bytes tok) (Some 200) (ts + 100) = Inr p
          \<and> (\<not> ts + ttl < now \<and> \<not> now + 60 < ts \<longrightarrow>
               decrypt L F (Bytes tok) (Some ttl) now = Inr p)
          \<and> (ts \<le> now \<longrightarrow> decrypt L F (Bytes tok) None now = Inr p))"
proof -
  have a: "ts + ttl < now \<longrightarrow> decrypt L F (Bytes tok) (Some ttl) now = Inl InvalidToken"
    using decrypt_expired [OF ts] by blast
  have b: "decrypt L F (Bytes tok) (Some 50) (ts + 100) = Inl InvalidToken"
      "decrypt L F (Bytes tok) (Some 200) (ts + 100) = Inr p"
      "\<not> ts + ttl < now \<and> \<not> now + 60 < ts \<longrightarrow> decrypt L F (Bytes tok) (Some ttl) now = Inr p"
      "ts \<le> now \<longrightarrow> decrypt L F (Bytes tok) None now = Inr p"
    if v: "decrypt L F (Bytes tok) None ts = Inr p"
    using decrypt_clock [OF ts v, of "Some 50" "ts + 100"]
      decrypt_clock [OF ts v, of "Some 200" "ts + 100"]
      decrypt_clock [OF ts v, of "Some ttl" now]
      decrypt_clock [OF ts v, of None now]
    by (simp_all add: MAX_CLOCK_SKEW_def)
  from a b show ?thesis by blast
qed

theorem decrypt_ttl_witness:
  "token_timestamp toy_codecs toy_token = Some 1000
   \<and> decrypt toy_codecs toy_fernet (Bytes toy_token) None 1000 = Inr [1, 2, 3]
   \<and> decrypt toy_codecs toy_fernet (Bytes toy_token) (Some 50) 1100 = Inl InvalidToken
   \<and> decrypt toy_codecs toy_fernet (Bytes toy_token) (Some 200) 1100 = Inr [1, 2, 3]
   \<and> decrypt toy_codecs toy_fernet (Bytes toy_token) None 1000000 = Inr [1, 2, 3]"
  using decrypt_ttl [OF toy_token_timestamp, of 50 1000000 toy_fernet "[1, 2, 3]"]
    toy_token_timestamp toy_token_decrypt
  by simp

text \<open>
  C7. For every plaintext, every timestamp in the range of the 8-byte field and every
  16-byte iv, under a 16-byte cipher key the encoder returns the base64 encoding of: the
  byte \<open>0x80\<close>, the timestamp as 8 bytes big-endian, the iv, the CBC ciphertext \<open>c\<close> of
  the padded plaintext, and the HMAC of all of these under the signing key. The output
  is a function of plaintext, timestamp and iv.
\<close>

theorem encrypt_from_parts_layout:
  assumes ok: "primitives_ok L (backend F)"
    and k: "length (encryption_key F) = 16"
    and iv: "length iv = 16"
    and t: "0 \<le> t" "t < 2 ^ 64"
  shows "\<exists>c. aes_cbc_encrypt (backend F) (encryption_key F) iv (pkcs7_pad L p) = Some c
           \<and> encrypt_from_parts L F (Bytes p) t iv =
               Inr (urlsafe_b64encode L
                     (([0x80] @ be_bytes 8 t @ iv @ c)
                      @ hmac_sha256 (backend F) (signing_key F) ([0x80] @ be_bytes 8 t @ iv @ c)))
           \<and> length (be_bytes 8 t) = 8 \<and> be_int (be_bytes 8 t) = t
           \<and> length (hmac_sha256 (backend F) (signing_key F) ([0x80] @ be_bytes 8 t @ iv @ c)) = 32"
proof -
  from ok k iv obtain c where
    enc: "aes_cbc_encrypt (backend F) (encryption_key F) iv (pkcs7_pad L p) = Some c"
    unfolding primitives_ok_def by blast
  have pk: "pack_Q t = Some (be_bytes 8 t)"
    using t by (simp add: pack_Q_def)
  have e: "encrypt_from_parts L F (Bytes p) t iv =
             Inr (urlsafe_b64encode L
                   (([0x80] @ be_bytes 8 t @ iv @ c)
                    @ hmac_sha256 (backend F) (signing_key F) ([0x80] @ be_bytes 8 t @ iv @ c)))"
    by (simp add: encrypt_from_parts_def enc pk Let_def)
  have b: "be_int (be_bytes 8 t) = t"
    using t by (simp add: be_int_be_bytes)
  have h: "length (hmac_sha256 (backend F) (signing_key F) ([0x80] @ be_bytes 8 t @ iv @ c)) = 32"
    using ok by (simp add: primitives_ok_def)
  from enc e b h show ?thesis
    by (simp add: length_be_bytes)
qed

theorem encrypt_from_parts_layout_witness:
  "primitives_ok toy_codecs (backend toy_fernet)
   \<and> length (encryption_key toy_fernet) = 16 \<and> length toy_iv = 16
   \<and> (\<exists>c. aes_cbc_encrypt (backend toy_fernet) (encryption_key toy_fernet) toy_iv
             (pkcs7_pad toy_codecs [1, 2, 3]) = Some c
          \<and> encrypt_from_parts toy_codecs toy_fernet (Bytes [1, 2, 3]) 1000 toy_iv =
              Inr (urlsafe_b64encode toy_codecs
                    (([0x80] @ be_bytes 8 1000 @ toy_iv @ c)
                     @ hmac_sha256 (backend toy_fernet) (signing_key toy_fernet)
                         ([0x80] @ be_bytes 8 1000 @ toy_iv @ c))))"
proof -
  have k: "length (encryption_key toy_fernet) = 16" by (simp add: toy_fernet_def)
  have iv: "length toy_iv = 16" by (simp add: toy_iv_def)
  from encrypt_from_parts_layout [OF toy_backend_ok k iv, of 1000 "[1, 2, 3]"]
  have "\<exists>c. aes_cbc_encrypt (backend toy_fernet) (encryption_key toy_fernet) toy_iv
             (pkcs7_pad toy_codecs [1, 2, 3]) = Some c
          \<and> encrypt_from_parts toy_codecs toy_fernet (Bytes [1, 2, 3]) 1000 toy_iv =
              Inr (urlsafe_b64encode toy_codecs
                    (([0x80] @ be_bytes 8 1000 @ toy_iv @ c)
                     @ hmac_sha256 (backend toy_fernet) (signing_key toy_fernet)
                         ([0x80] @ be_bytes 8 1000 @ toy_iv @ c)))"
    by auto
  with toy_backend_ok k iv show ?thesis by blast
qed

text \<open>
  C8. A unicode string as plaintext of \<open>encrypt\<close> or as token of \<open>decrypt\<close> raises
  \<open>TypeError\<close>, an outcome other than \<open>InvalidToken\<close>, whatever the collaborators
  are: none of them is consulted.
\<close>

theorem text_argument_TypeError:
  "encrypt L F (Text s) t iv = Inl TypeError
   \<and> encrypt_from_parts L F (Text s) t iv = Inl TypeError
   \<and> decrypt L F (Text s) ttl now = Inl TypeError
   \<and> TypeError \<noteq> InvalidToken"
  by (simp add: encrypt_def encrypt_from_parts_def decrypt_def)

text \<open>
  C9. Every call of \<open>encrypt\<close> and of \<open>decrypt\<close>, run as a transformer of the
  object, returns or raises what the function above returns or raises and leaves the object
  after the call equal to the object before it: signing key, encryption key and backend
  are unchanged, on every path through the bodies. (The constructor, written in the same
  way, does change the object: lemma \<open>Fernet_init_st_writes\<close>.)
\<close>

theorem encrypt_decrypt_frame:
  "encrypt_st L d t iv F = (encrypt L F d t iv, F)
   \<and> decrypt_st L tok ttl now F = (decrypt L F tok ttl now, F)
   \<and> signing_key (snd (encrypt_st L d t iv F)) = signing_key F
   \<and> encryption_key (snd (encrypt_st L d t iv F)) = encryption_key F
   \<and> backend (snd (encrypt_st L d t iv F)) = backend F
   \<and> signing_key (snd (decrypt_st L tok ttl now F)) = signing_key F
   \<and> encryption_key (snd (decrypt_st L tok ttl now F)) = encryption_key F
   \<and> backend (snd (decrypt_st L tok ttl now F)) = backend F"
proof -
  have e: "encrypt_st L d t iv F = (encrypt L F d t iv, F)"
    by (simp add: encrypt_st_def encrypt_from_parts_st_def encrypt_def encrypt_from_parts_def
        bind_m_def read_attr_def raise_m_def return_m_def Let_def
        split: pyobj.split option.split)
  have d: "decrypt_st L tok ttl now F = (decrypt L F tok ttl now, F)"
    by (simp add: decrypt_st_def decrypt_def
        bind_m_def read_attr_def raise_m_def return_m_def Let_def
        split: pyobj.split option.split list.split)
  from e d show ?thesis by simp
qed

text \<open>
  C10. A token valid apart from its time whose timestamp is exactly 60 seconds ahead of
  the verifier's clock is accepted without TTL: the skew check rejects only when
  \<open>now + 60\<close> is strictly less than the timestamp.
\<close>

theorem decrypt_skew_boundary:
  assumes ts: "token_timestamp L tok = Some ts"
    and v: "decrypt L F (Bytes tok) None ts = Inr p"
    and b: "ts = now + 60"
  shows "decrypt L F (Bytes tok) None now = Inr p"
  using decrypt_clock [OF ts v, of None now] b
  by (simp add: MAX_CLOCK_SKEW_def)

theorem decrypt_skew_boundary_witness:
  "token_timestamp toy_codecs toy_token = Some 1000
   \<and> decrypt toy_codecs toy_fernet (Bytes toy_token) None 1000 = Inr [1, 2, 3]
   \<and> (1000 :: int) = 940 + 60
   \<and> decrypt toy_codecs toy_fernet (Bytes toy_token) None 940 = Inr [1, 2, 3]"
proof -
  have b: "(1000 :: int) = 940 + 60" by simp
  show ?thesis
    using decrypt_skew_boundary [OF toy_token_timestamp toy_token_decrypt b]
      toy_token_timestamp toy_token_decrypt
    by simp
qed

end
